theory Spec2Isabelle
  imports Main "HOL-Library.Word"
begin

unbundle bit_operations_syntax

section \<open>Data model of the keyboard (eek-keyboard.c)\<close>

text \<open>
  \<open>gint\<close> and \<open>guint\<close> are 32-bit machine integers. Both are kept as bit patterns:
  the code below only compares \<open>gint\<close> values for equality and only combines
  \<open>guint\<close> values bitwise, so the conversion from \<open>guint\<close> to \<open>gint\<close> in
  \<open>set_level_from_modifiers\<close> is the identity on the pattern.
\<close>

type_synonym gint = "32 word"
type_synonym guint = "32 word"
type_synonym EekModifierType = guint

datatype EekModifierBehavior =
    EEK_MODIFIER_BEHAVIOR_NONE
  | EEK_MODIFIER_BEHAVIOR_LATCH
  | EEK_MODIFIER_BEHAVIOR_LOCK

text \<open>
  A symbol is used by the keyboard only through \<open>eek_symbol_get_modifier_mask\<close>; a key
  only through \<open>eek_key_get_symbol_at_index\<close> and its keycode. Both accessors live in
  files that are not part of the sources at hand, so a symbol is a record holding its
  modifier mask (and a name to tell symbols apart), and a key holds its keycode and its
  symbol matrix, a sparse table from (group, level) to symbols.
\<close>

record EekSymbol =
  name :: string
  modifier_mask :: EekModifierType

record EekKey =
  keycode :: guint
  symbol_matrix :: "gint \<Rightarrow> gint \<Rightarrow> EekSymbol option"

record EekSection =
  section_children :: "EekKey list"

text \<open>
  \<open>struct _EekKeyboardPrivate\<close>, together with the list of child sections that the
  keyboard inherits from its container parent class. The \<open>layout\<close> pointer is left
  out: none of the operations below reads or writes it.
\<close>

record EekKeyboard =
  group :: gint
  level :: gint
  modifier_behavior :: EekModifierBehavior
  modifiers :: EekModifierType
  children :: "EekSection list"

text \<open>
  Signals emitted with \<open>g_signal_emit_by_name\<close> are returned as a list, next to the
  updated keyboard. The class handler of symbol-index-changed has an empty body.
\<close>

datatype signal = SYMBOL_INDEX_CHANGED gint gint

text \<open>
  Modelled from the spec: \<open>eek_key_get_symbol_at_index\<close> and
  \<open>eek_symbol_get_modifier_mask\<close> are defined in eek-key.c and eek-symbol.c, which are
  missing. The lookup returns the stored symbol or nothing when the cell is unpopulated
  and never fails; a symbol carries an optional modifier mask (zero when absent).
\<close>

definition eek_key_get_symbol_at_index :: "EekKey \<Rightarrow> gint \<Rightarrow> gint \<Rightarrow> EekSymbol option" where
  "eek_key_get_symbol_at_index key g l = symbol_matrix key g l"

definition eek_symbol_get_modifier_mask :: "EekSymbol \<Rightarrow> EekModifierType" where
  "eek_symbol_get_modifier_mask symbol = modifier_mask symbol"

section \<open>Symbol index\<close>

definition eek_keyboard_init :: "EekKeyboard" where
  "eek_keyboard_init =
     \<lparr>group = 0, level = 0, modifier_behavior = EEK_MODIFIER_BEHAVIOR_NONE,
      modifiers = 0, children = []\<rparr>"

definition eek_keyboard_real_set_symbol_index ::
    "EekKeyboard \<Rightarrow> gint \<Rightarrow> gint \<Rightarrow> EekKeyboard \<times> signal list" where
  "eek_keyboard_real_set_symbol_index self g l =
     (if group self \<noteq> g \<or> level self \<noteq> l
      then (self\<lparr>group := g, level := l\<rparr>, [SYMBOL_INDEX_CHANGED g l])
      else (self, []))"

text \<open>
  The two out-parameters of \<open>eek_keyboard_real_get_symbol_index\<close> are returned as a
  pair; each caller below passes one non-null pointer and reads that component.
\<close>

definition eek_keyboard_real_get_symbol_index :: "EekKeyboard \<Rightarrow> gint \<times> gint" where
  "eek_keyboard_real_get_symbol_index self = (group self, level self)"

definition eek_keyboard_set_symbol_index ::
    "EekKeyboard \<Rightarrow> gint \<Rightarrow> gint \<Rightarrow> EekKeyboard \<times> signal list" where
  "eek_keyboard_set_symbol_index keyboard g l = eek_keyboard_real_set_symbol_index keyboard g l"

definition eek_keyboard_get_group :: "EekKeyboard \<Rightarrow> gint" where
  "eek_keyboard_get_group keyboard = fst (eek_keyboard_real_get_symbol_index keyboard)"

definition eek_keyboard_get_level :: "EekKeyboard \<Rightarrow> gint" where
  "eek_keyboard_get_level keyboard = snd (eek_keyboard_real_get_symbol_index keyboard)"

definition eek_keyboard_set_group :: "EekKeyboard \<Rightarrow> gint \<Rightarrow> EekKeyboard \<times> signal list" where
  "eek_keyboard_set_group keyboard g =
     (let l = eek_keyboard_get_level keyboard
      in eek_keyboard_set_symbol_index keyboard g l)"

definition eek_keyboard_set_level :: "EekKeyboard \<Rightarrow> gint \<Rightarrow> EekKeyboard \<times> signal list" where
  "eek_keyboard_set_level keyboard l =
     (let g = eek_keyboard_get_group keyboard
      in eek_keyboard_set_symbol_index keyboard g l)"

definition eek_keyboard_set_modifier_behavior ::
    "EekKeyboard \<Rightarrow> EekModifierBehavior \<Rightarrow> EekKeyboard" where
  "eek_keyboard_set_modifier_behavior keyboard mb = keyboard\<lparr>modifier_behavior := mb\<rparr>"

definition eek_keyboard_get_modifier_behavior :: "EekKeyboard \<Rightarrow> EekModifierBehavior" where
  "eek_keyboard_get_modifier_behavior keyboard = modifier_behavior keyboard"

definition eek_keyboard_get_modifiers :: "EekKeyboard \<Rightarrow> EekModifierType" where
  "eek_keyboard_get_modifiers keyboard = modifiers keyboard"

section \<open>Press and release\<close>

text \<open>
  The constants \<open>EEK_SHIFT_MASK\<close> and \<open>EEK_MOD5_MASK\<close> are declared in eek-types.h, which
  is missing; they are parameters \<open>shift_mask\<close> and \<open>mod5_mask\<close> of every function that
  depends on them.
\<close>

definition set_level_from_modifiers ::
    "guint \<Rightarrow> guint \<Rightarrow> EekKeyboard \<Rightarrow> EekKeyboard \<times> signal list" where
  "set_level_from_modifiers shift_mask mod5_mask self =
     (let l0 = (0 :: guint);
          l1 = (if modifiers self AND mod5_mask \<noteq> 0 then l0 OR 2 else l0);
          l2 = (if modifiers self AND shift_mask \<noteq> 0 then l1 OR 1 else l1)
      in eek_keyboard_set_level self l2)"

definition eek_keyboard_real_key_pressed ::
    "guint \<Rightarrow> guint \<Rightarrow> EekKeyboard \<Rightarrow> EekKey \<Rightarrow> EekKeyboard \<times> signal list" where
  "eek_keyboard_real_key_pressed shift_mask mod5_mask self key =
     (let self1 = (if modifier_behavior self = EEK_MODIFIER_BEHAVIOR_LATCH
                   then self\<lparr>modifiers := 0\<rparr> else self)
      in case eek_key_get_symbol_at_index key (group self1) (level self1) of
           None \<Rightarrow> (self1, [])
         | Some symbol \<Rightarrow>
             (let modifier = eek_symbol_get_modifier_mask symbol;
                  self2 =
                    (if modifier \<noteq> 0 then
                       (if modifier_behavior self1 = EEK_MODIFIER_BEHAVIOR_NONE \<or>
                           modifier_behavior self1 = EEK_MODIFIER_BEHAVIOR_LATCH
                        then self1\<lparr>modifiers := modifiers self1 OR modifier\<rparr>
                        else if modifier_behavior self1 = EEK_MODIFIER_BEHAVIOR_LOCK
                        then self1\<lparr>modifiers := modifiers self1 XOR modifier\<rparr>
                        else self1)
                     else self1)
              in set_level_from_modifiers shift_mask mod5_mask self2))"

definition eek_keyboard_real_key_released ::
    "guint \<Rightarrow> guint \<Rightarrow> EekKeyboard \<Rightarrow> EekKey \<Rightarrow> EekKeyboard \<times> signal list" where
  "eek_keyboard_real_key_released shift_mask mod5_mask self key =
     (case eek_key_get_symbol_at_index key (group self) (level self) of
        None \<Rightarrow> (self, [])
      | Some symbol \<Rightarrow>
          (let modifier = eek_symbol_get_modifier_mask symbol;
               self1 =
                 (if modifier \<noteq> 0 then
                    (if modifier_behavior self = EEK_MODIFIER_BEHAVIOR_NONE
                     then self\<lparr>modifiers := modifiers self AND NOT modifier\<rparr>
                     else self)
                  else self)
           in set_level_from_modifiers shift_mask mod5_mask self1))"

section \<open>Key events\<close>

text \<open>
  The signals key-pressed and key-released run the class handlers above, one event at a
  time and in arrival order. \<open>key_events\<close> runs a sequence of events and collects the
  notifications in the order of their emission.
\<close>

datatype event = KEY_PRESSED EekKey | KEY_RELEASED EekKey

fun key_event :: "guint \<Rightarrow> guint \<Rightarrow> EekKeyboard \<Rightarrow> event \<Rightarrow> EekKeyboard \<times> signal list" where
  "key_event shift_mask mod5_mask kb (KEY_PRESSED key) =
     eek_keyboard_real_key_pressed shift_mask mod5_mask kb key"
| "key_event shift_mask mod5_mask kb (KEY_RELEASED key) =
     eek_keyboard_real_key_released shift_mask mod5_mask kb key"

fun key_events ::
    "guint \<Rightarrow> guint \<Rightarrow> EekKeyboard \<Rightarrow> event list \<Rightarrow> EekKeyboard \<times> signal list" where
  "key_events shift_mask mod5_mask kb [] = (kb, [])"
| "key_events shift_mask mod5_mask kb (e # es) =
     (case key_event shift_mask mod5_mask kb e of
        (kb1, out1) \<Rightarrow>
          (case key_events shift_mask mod5_mask kb1 es of
             (kb2, out2) \<Rightarrow> (kb2, out1 @ out2)))"

text \<open>
  The level as the specification words it: twice the MOD5 bit plus once the SHIFT bit of
  the modifier mask. It is compared below with what \<open>set_level_from_modifiers\<close>
  stores.
\<close>

definition level_of_mask :: "guint \<Rightarrow> guint \<Rightarrow> EekModifierType \<Rightarrow> gint" where
  "level_of_mask shift_mask mod5_mask m =
     2 * (if m AND mod5_mask \<noteq> 0 then 1 else 0) + 1 * (if m AND shift_mask \<noteq> 0 then 1 else 0)"

section \<open>Finding a key by its keycode\<close>

text \<open>
  Modelled from the spec: \<open>eek_section_find_key_by_keycode\<close> (eek-section.c) and
  \<open>eek_container_find\<close> (eek-container.c) are missing. A section is an ordered sequence
  of keys and its lookup returns the first key with the keycode; the container visits
  its children in insertion order, calls the callback on each with the user data, and
  returns the first child for which the callback answers 0.
\<close>

definition eek_section_find_key_by_keycode :: "EekSection \<Rightarrow> guint \<Rightarrow> EekKey option" where
  "eek_section_find_key_by_keycode section code =
     find (\<lambda>k. keycode k = code) (section_children section)"

fun eek_container_find ::
    "'e list \<Rightarrow> ('e \<Rightarrow> 'd \<Rightarrow> gint \<times> 'd) \<Rightarrow> 'd \<Rightarrow> 'e option \<times> 'd" where
  "eek_container_find [] func user_data = (None, user_data)"
| "eek_container_find (child # rest) func user_data =
     (case func child user_data of
        (r, user_data') \<Rightarrow>
          if r = 0 then (Some child, user_data')
          else eek_container_find rest func user_data')"

text \<open>
  \<open>struct _FindKeyByKeycodeCallbackData\<close>; its fields \<open>key\<close> and \<open>keycode\<close> carry a
  prefix here, since \<open>keycode\<close> is already the field of a key. The callback writes the
  record through the pointer it gets, so it returns the record next to its answer.
\<close>

record FindKeyByKeycodeCallbackData =
  data_key :: "EekKey option"
  data_keycode :: guint

definition find_key_by_keycode_section_callback ::
    "EekSection \<Rightarrow> FindKeyByKeycodeCallbackData \<Rightarrow> gint \<times> FindKeyByKeycodeCallbackData" where
  "find_key_by_keycode_section_callback element data =
     (let data' = data\<lparr>data_key := eek_section_find_key_by_keycode element (data_keycode data)\<rparr>
      in if data_key data' \<noteq> None then (0, data') else (- 1, data'))"

text \<open>
  The local \<open>data\<close> is not initialised apart from its keycode: \<open>uninit\<close> stands for
  whatever \<open>data.key\<close> holds on entry. The keyboard is returned next to the result, as
  the function received it: the body writes to \<open>data\<close> only.
\<close>

definition eek_keyboard_real_find_key_by_keycode ::
    "EekKey option \<Rightarrow> EekKeyboard \<Rightarrow> guint \<Rightarrow> EekKeyboard \<times> EekKey option" where
  "eek_keyboard_real_find_key_by_keycode uninit self code =
     (let data = \<lparr>data_key = uninit, data_keycode = code\<rparr>
      in case eek_container_find (children self) find_key_by_keycode_section_callback data of
           (Some section, data') \<Rightarrow> (self, data_key data')
         | (None, data') \<Rightarrow> (self, None))"

section \<open>Sample keys and keyboards\<close>

text \<open>
  Concrete inputs for the evaluations below: a Shift key that carries the modifier bit 1
  at every index, a level-3 shift key that carries the bit 128, a letter key with a
  symbol at levels 0 and 1 of group 0, a space key that has a symbol at level 0 only, a
  second key with the letter key's keycode, and a keyboard of two sections. The masks
  used with them are 1 for SHIFT and 128 for MOD5.
\<close>

definition Shift_L_key :: EekKey where
  "Shift_L_key =
     \<lparr>keycode = 50,
      symbol_matrix = (\<lambda>g l. Some \<lparr>name = ''Shift_L'', modifier_mask = 1\<rparr>)\<rparr>"

definition ISO_Level3_Shift_key :: EekKey where
  "ISO_Level3_Shift_key =
     \<lparr>keycode = 92,
      symbol_matrix = (\<lambda>g l. Some \<lparr>name = ''ISO_Level3_Shift'', modifier_mask = 128\<rparr>)\<rparr>"

definition a_key :: EekKey where
  "a_key =
     \<lparr>keycode = 38,
      symbol_matrix = (\<lambda>g l.
        if g = 0 \<and> l = 0 then Some \<lparr>name = ''a'', modifier_mask = 0\<rparr>
        else if g = 0 \<and> l = 1 then Some \<lparr>name = ''A'', modifier_mask = 0\<rparr>
        else None)\<rparr>"

definition space_key :: EekKey where
  "space_key =
     \<lparr>keycode = 65,
      symbol_matrix = (\<lambda>g l.
        if g = 0 \<and> l = 0 then Some \<lparr>name = ''space'', modifier_mask = 0\<rparr> else None)\<rparr>"

definition a_key_again :: EekKey where
  "a_key_again =
     \<lparr>keycode = 38,
      symbol_matrix = (\<lambda>g l. Some \<lparr>name = ''a_second'', modifier_mask = 0\<rparr>)\<rparr>"

definition sample_keyboard :: EekKeyboard where
  "sample_keyboard =
     eek_keyboard_init
       \<lparr>children := [\<lparr>section_children = [Shift_L_key, a_key]\<rparr>,
                     \<lparr>section_children = [space_key, a_key_again]\<rparr>]\<rparr>"

definition latch_keyboard :: EekKeyboard where
  "latch_keyboard =
     eek_keyboard_set_modifier_behavior eek_keyboard_init EEK_MODIFIER_BEHAVIOR_LATCH"

definition lock_keyboard :: EekKeyboard where
  "lock_keyboard =
     eek_keyboard_set_modifier_behavior eek_keyboard_init EEK_MODIFIER_BEHAVIOR_LOCK"

section \<open>The handlers, step by step\<close>

lemma set_level_eq:
  "eek_keyboard_set_level kb l =
     (if level kb \<noteq> l then (kb\<lparr>level := l\<rparr>, [SYMBOL_INDEX_CHANGED (group kb) l])
      else (kb, []))"
  by (simp add: eek_keyboard_set_level_def eek_keyboard_set_symbol_index_def
      eek_keyboard_real_set_symbol_index_def eek_keyboard_get_group_def
      eek_keyboard_real_get_symbol_index_def Let_def)

lemma set_level_from_modifiers_eq:
  "set_level_from_modifiers sh m5 kb =
     (if level kb \<noteq> level_of_mask sh m5 (modifiers kb)
      then (kb\<lparr>level := level_of_mask sh m5 (modifiers kb)\<rparr>,
            [SYMBOL_INDEX_CHANGED (group kb) (level_of_mask sh m5 (modifiers kb))])
      else (kb, []))"
  by (simp add: set_level_from_modifiers_def set_level_eq level_of_mask_def Let_def)

lemma pressed_no_symbol:
  assumes "eek_key_get_symbol_at_index key (group kb) (level kb) = None"
  shows "eek_keyboard_real_key_pressed sh m5 kb key =
     (if modifier_behavior kb = EEK_MODIFIER_BEHAVIOR_LATCH then kb\<lparr>modifiers := 0\<rparr> else kb, [])"
  using assms by (simp add: eek_keyboard_real_key_pressed_def Let_def)

lemma pressed_none:
  assumes "eek_key_get_symbol_at_index key (group kb) (level kb) = Some symb"
    and "modifier_behavior kb = EEK_MODIFIER_BEHAVIOR_NONE"
  shows "eek_keyboard_real_key_pressed sh m5 kb key =
     set_level_from_modifiers sh m5
       (kb\<lparr>modifiers := modifiers kb OR eek_symbol_get_modifier_mask symb\<rparr>)"
  using assms by (simp add: eek_keyboard_real_key_pressed_def Let_def)

lemma pressed_latch:
  assumes "eek_key_get_symbol_at_index key (group kb) (level kb) = Some symb"
    and "modifier_behavior kb = EEK_MODIFIER_BEHAVIOR_LATCH"
  shows "eek_keyboard_real_key_pressed sh m5 kb key =
     set_level_from_modifiers sh m5 (kb\<lparr>modifiers := eek_symbol_get_modifier_mask symb\<rparr>)"
  using assms by (simp add: eek_keyboard_real_key_pressed_def Let_def)

lemma pressed_lock:
  assumes "eek_key_get_symbol_at_index key (group kb) (level kb) = Some symb"
    and "modifier_behavior kb = EEK_MODIFIER_BEHAVIOR_LOCK"
  shows "eek_keyboard_real_key_pressed sh m5 kb key =
     set_level_from_modifiers sh m5
       (kb\<lparr>modifiers := modifiers kb XOR eek_symbol_get_modifier_mask symb\<rparr>)"
  using assms by (simp add: eek_keyboard_real_key_pressed_def Let_def)

lemma released_no_symbol:
  assumes "eek_key_get_symbol_at_index key (group kb) (level kb) = None"
  shows "eek_keyboard_real_key_released sh m5 kb key = (kb, [])"
  using assms by (simp add: eek_keyboard_real_key_released_def)

lemma released_none:
  assumes "eek_key_get_symbol_at_index key (group kb) (level kb) = Some symb"
    and "modifier_behavior kb = EEK_MODIFIER_BEHAVIOR_NONE"
  shows "eek_keyboard_real_key_released sh m5 kb key =
     set_level_from_modifiers sh m5
       (kb\<lparr>modifiers := modifiers kb AND NOT (eek_symbol_get_modifier_mask symb)\<rparr>)"
  using assms by (simp add: eek_keyboard_real_key_released_def Let_def)

lemma released_keeps:
  assumes "eek_key_get_symbol_at_index key (group kb) (level kb) = Some symb"
    and "modifier_behavior kb \<noteq> EEK_MODIFIER_BEHAVIOR_NONE"
  shows "eek_keyboard_real_key_released sh m5 kb key = set_level_from_modifiers sh m5 kb"
  using assms by (simp add: eek_keyboard_real_key_released_def Let_def)

lemma pressed_keeps_frame:
  "group (fst (eek_keyboard_real_key_pressed sh m5 kb key)) = group kb \<and>
   modifier_behavior (fst (eek_keyboard_real_key_pressed sh m5 kb key)) = modifier_behavior kb \<and>
   children (fst (eek_keyboard_real_key_pressed sh m5 kb key)) = children kb"
  by (cases "eek_key_get_symbol_at_index key (group kb) (level kb)";
      cases "modifier_behavior kb")
     (simp_all add: pressed_no_symbol pressed_none pressed_latch pressed_lock
        set_level_from_modifiers_eq)

lemma released_keeps_frame:
  "group (fst (eek_keyboard_real_key_released sh m5 kb key)) = group kb \<and>
   modifier_behavior (fst (eek_keyboard_real_key_released sh m5 kb key)) = modifier_behavior kb \<and>
   children (fst (eek_keyboard_real_key_released sh m5 kb key)) = children kb"
  by (cases "eek_key_get_symbol_at_index key (group kb) (level kb)";
      cases "modifier_behavior kb")
     (simp_all add: released_no_symbol released_none released_keeps
        set_level_from_modifiers_eq)

lemma key_event_keeps_frame:
  "group (fst (key_event sh m5 kb e)) = group kb \<and>
   modifier_behavior (fst (key_event sh m5 kb e)) = modifier_behavior kb \<and>
   children (fst (key_event sh m5 kb e)) = children kb"
  by (cases e) (simp_all add: pressed_keeps_frame released_keeps_frame)

lemma key_events_Cons:
  "fst (key_events sh m5 kb (e # es)) = fst (key_events sh m5 (fst (key_event sh m5 kb e)) es)"
  by (simp split: prod.splits)

lemma key_events_append:
  "fst (key_events sh m5 kb (es @ fs)) =
     fst (key_events sh m5 (fst (key_events sh m5 kb es)) fs)"
  by (induction es arbitrary: kb) (simp_all add: key_events_Cons del: key_events.simps(2))

lemma or_xor_clear:
  fixes a m :: "32 word"
  assumes "a AND m = 0"
  shows "a XOR m = a OR m" and "(a OR m) XOR m = a"
  using assms by (auto simp: bit_eq_iff bit_simps)

subsection \<open>The sample inputs, evaluated\<close>

lemma sample_simps:
  "eek_key_get_symbol_at_index Shift_L_key g l = Some \<lparr>name = ''Shift_L'', modifier_mask = 1\<rparr>"
  "eek_key_get_symbol_at_index ISO_Level3_Shift_key g l =
     Some \<lparr>name = ''ISO_Level3_Shift'', modifier_mask = 128\<rparr>"
  "eek_key_get_symbol_at_index space_key g l =
     (if g = 0 \<and> l = 0 then Some \<lparr>name = ''space'', modifier_mask = 0\<rparr> else None)"
  "eek_key_get_symbol_at_index a_key g l =
     (if g = 0 \<and> l = 0 then Some \<lparr>name = ''a'', modifier_mask = 0\<rparr>
      else if g = 0 \<and> l = 1 then Some \<lparr>name = ''A'', modifier_mask = 0\<rparr> else None)"
  by (simp_all add: eek_key_get_symbol_at_index_def Shift_L_key_def space_key_def a_key_def
      ISO_Level3_Shift_key_def)

lemma init_fields:
  "group eek_keyboard_init = 0" "level eek_keyboard_init = 0" "modifiers eek_keyboard_init = 0"
  "modifier_behavior eek_keyboard_init = EEK_MODIFIER_BEHAVIOR_NONE"
  by (simp_all add: eek_keyboard_init_def)

lemma latch_keyboard_fields:
  "group latch_keyboard = 0" "level latch_keyboard = 0" "modifiers latch_keyboard = 0"
  "modifier_behavior latch_keyboard = EEK_MODIFIER_BEHAVIOR_LATCH"
  by (simp_all add: latch_keyboard_def eek_keyboard_set_modifier_behavior_def
      eek_keyboard_init_def)

lemma lock_keyboard_fields:
  "group lock_keyboard = 0" "level lock_keyboard = 0" "modifiers lock_keyboard = 0"
  "modifier_behavior lock_keyboard = EEK_MODIFIER_BEHAVIOR_LOCK"
  by (simp_all add: lock_keyboard_def eek_keyboard_set_modifier_behavior_def
      eek_keyboard_init_def)

lemma latch_shift_state:
  "eek_keyboard_real_key_pressed 1 128 latch_keyboard Shift_L_key =
     (latch_keyboard\<lparr>modifiers := 1, level := 1\<rparr>, [SYMBOL_INDEX_CHANGED 0 1])"
  by (simp add: pressed_latch [OF sample_simps(1)] latch_keyboard_fields
      set_level_from_modifiers_eq level_of_mask_def eek_symbol_get_modifier_mask_def)

lemma latch_level3_state:
  "eek_keyboard_real_key_pressed 1 128 latch_keyboard ISO_Level3_Shift_key =
     (latch_keyboard\<lparr>modifiers := 128, level := 2\<rparr>, [SYMBOL_INDEX_CHANGED 0 2])"
  by (simp add: pressed_latch [OF sample_simps(2)] latch_keyboard_fields
      set_level_from_modifiers_eq level_of_mask_def eek_symbol_get_modifier_mask_def)

lemma none_shift_state:
  "eek_keyboard_real_key_pressed 1 128 eek_keyboard_init Shift_L_key =
     (eek_keyboard_init\<lparr>modifiers := 1, level := 1\<rparr>, [SYMBOL_INDEX_CHANGED 0 1])"
  by (simp add: pressed_none [OF sample_simps(1)] init_fields
      set_level_from_modifiers_eq level_of_mask_def eek_symbol_get_modifier_mask_def)

lemma lock_shift_state:
  "eek_keyboard_real_key_pressed 1 128 lock_keyboard Shift_L_key =
     (lock_keyboard\<lparr>modifiers := 1, level := 1\<rparr>, [SYMBOL_INDEX_CHANGED 0 1])"
  by (simp add: pressed_lock [OF sample_simps(1)] lock_keyboard_fields
      set_level_from_modifiers_eq level_of_mask_def eek_symbol_get_modifier_mask_def)

section \<open>A press that resolves no symbol\<close>

text \<open>
  C1, as the code has it. When the key has no symbol at the current (group, level), a
  press under the behaviors None and Lock emits no notification and returns the keyboard
  as it was. Under Latch the modifier mask has already been reset when the lookup
  misses: the press leaves the mask empty and keeps the group and the behavior, and when
  the mask was empty before, the press emits nothing and returns the keyboard as it was.
\<close>

theorem key_pressed_without_symbol:
  assumes "eek_key_get_symbol_at_index key (group kb) (level kb) = None"
  shows "(modifier_behavior kb \<noteq> EEK_MODIFIER_BEHAVIOR_LATCH \<longrightarrow>
            eek_keyboard_real_key_pressed sh m5 kb key = (kb, [])) \<and>
         (modifier_behavior kb = EEK_MODIFIER_BEHAVIOR_LATCH \<longrightarrow>
            modifiers (fst (eek_keyboard_real_key_pressed sh m5 kb key)) = 0 \<and>
            group (fst (eek_keyboard_real_key_pressed sh m5 kb key)) = group kb \<and>
            modifier_behavior (fst (eek_keyboard_real_key_pressed sh m5 kb key)) =
              EEK_MODIFIER_BEHAVIOR_LATCH \<and>
            (modifiers kb = 0 \<longrightarrow> eek_keyboard_real_key_pressed sh m5 kb key = (kb, [])))"
  using assms by (simp add: pressed_no_symbol)

theorem key_pressed_without_symbol_witness:
  "eek_keyboard_real_key_pressed 1 128 (eek_keyboard_init\<lparr>modifiers := 1, level := 1\<rparr>) space_key =
     (eek_keyboard_init\<lparr>modifiers := 1, level := 1\<rparr>, []) \<and>
   modifiers (fst (eek_keyboard_real_key_pressed 1 128
      (latch_keyboard\<lparr>modifiers := 1, level := 1\<rparr>) space_key)) = 0"
  using key_pressed_without_symbol
      [of space_key "eek_keyboard_init\<lparr>modifiers := 1, level := 1\<rparr>" 1 128]
    key_pressed_without_symbol
      [of space_key "latch_keyboard\<lparr>modifiers := 1, level := 1\<rparr>" 1 128]
  by (simp add: sample_simps init_fields latch_keyboard_fields)

text \<open>
  The claim as stated fails under Latch. On a keyboard with the Latch behavior, a press
  of Shift latches the bit 1 and moves to level 1. The space key has no symbol at
  (0, 1); its press emits nothing, yet the modifier mask goes from 1 to 0.
\<close>

theorem key_pressed_without_symbol_latch_counterexample:
  "eek_key_get_symbol_at_index space_key
     (group (fst (eek_keyboard_real_key_pressed 1 128 latch_keyboard Shift_L_key)))
     (level (fst (eek_keyboard_real_key_pressed 1 128 latch_keyboard Shift_L_key))) = None \<and>
   modifiers (fst (eek_keyboard_real_key_pressed 1 128 latch_keyboard Shift_L_key)) = 1 \<and>
   modifiers (fst (eek_keyboard_real_key_pressed 1 128
      (fst (eek_keyboard_real_key_pressed 1 128 latch_keyboard Shift_L_key)) space_key)) = 0"
  by (simp add: latch_shift_state sample_simps pressed_no_symbol latch_keyboard_fields)

section \<open>The level and the modifier mask\<close>

lemma key_event_level_from_mask:
  assumes "modifier_behavior kb \<noteq> EEK_MODIFIER_BEHAVIOR_LATCH"
    and "level kb = level_of_mask sh m5 (modifiers kb)"
  shows "level (fst (key_event sh m5 kb e)) =
           level_of_mask sh m5 (modifiers (fst (key_event sh m5 kb e)))"
proof (cases e)
  case (KEY_PRESSED key)
  show ?thesis
    unfolding KEY_PRESSED key_event.simps using assms
    by (cases "eek_key_get_symbol_at_index key (group kb) (level kb)";
        cases "modifier_behavior kb")
       (simp_all add: pressed_no_symbol pressed_none pressed_lock
          set_level_from_modifiers_eq)
next
  case (KEY_RELEASED key)
  show ?thesis
    unfolding KEY_RELEASED key_event.simps using assms
    by (cases "eek_key_get_symbol_at_index key (group kb) (level kb)";
        cases "modifier_behavior kb")
       (simp_all add: released_no_symbol released_none released_keeps
          set_level_from_modifiers_eq)
qed

text \<open>
  Under the behaviors None and Lock, an event keeps the level equal to the level of the
  mask (the lemma above), and so does every sequence of events.
\<close>

theorem key_events_level_from_mask:
  assumes "modifier_behavior kb \<noteq> EEK_MODIFIER_BEHAVIOR_LATCH"
    and "level kb = level_of_mask sh m5 (modifiers kb)"
  shows "level (fst (key_events sh m5 kb es)) =
           level_of_mask sh m5 (modifiers (fst (key_events sh m5 kb es)))"
  using assms
proof (induction es arbitrary: kb)
  case Nil
  then show ?case by simp
next
  case (Cons e es)
  have "modifier_behavior (fst (key_event sh m5 kb e)) \<noteq> EEK_MODIFIER_BEHAVIOR_LATCH"
    using Cons.prems(1) by (simp add: key_event_keeps_frame)
  moreover have "level (fst (key_event sh m5 kb e)) =
      level_of_mask sh m5 (modifiers (fst (key_event sh m5 kb e)))"
    using Cons.prems by (rule key_event_level_from_mask)
  ultimately show ?case
    unfolding key_events_Cons by (rule Cons.IH)
qed

theorem key_events_level_from_mask_witness:
  "level (fst (key_events 1 128 lock_keyboard
      [KEY_PRESSED Shift_L_key, KEY_PRESSED space_key, KEY_RELEASED space_key])) =
   level_of_mask 1 128 (modifiers (fst (key_events 1 128 lock_keyboard
      [KEY_PRESSED Shift_L_key, KEY_PRESSED space_key, KEY_RELEASED space_key])))"
  by (rule key_events_level_from_mask)
     (simp_all add: lock_keyboard_fields level_of_mask_def)

text \<open>
  C2. The level after every event should be the level of the mask, 2 for the MOD5 bit
  plus 1 for the SHIFT bit. Under Latch the code does not keep this: the press handler
  resets the mask and then returns early, before \<open>set_level_from_modifiers\<close>, when the
  key has no symbol at the current index. From the initial keyboard with the Latch
  behavior, a press of Shift followed by a press of the space key (no symbol at level
  1) ends with an empty mask, whose level is 0, and the stored level 1.
\<close>

theorem latch_level_not_from_mask:
  "modifiers (fst (key_events 1 128 latch_keyboard
      [KEY_PRESSED Shift_L_key, KEY_PRESSED space_key])) = 0 \<and>
   level (fst (key_events 1 128 latch_keyboard
      [KEY_PRESSED Shift_L_key, KEY_PRESSED space_key])) = 1 \<and>
   level_of_mask 1 128 0 = 0"
  by (simp add: latch_shift_state pressed_no_symbol sample_simps latch_keyboard_fields
      level_of_mask_def)

theorem latch_level_not_from_mask_witness:
  "level (fst (key_events 1 128 latch_keyboard
      [KEY_PRESSED Shift_L_key, KEY_PRESSED space_key])) \<noteq>
   level_of_mask 1 128 (modifiers (fst (key_events 1 128 latch_keyboard
      [KEY_PRESSED Shift_L_key, KEY_PRESSED space_key])))"
proof -
  note at = latch_level_not_from_mask
  show ?thesis
    by (simp only: at [THEN conjunct1] at [THEN conjunct2, THEN conjunct1]
        at [THEN conjunct2, THEN conjunct2]) simp
qed

section \<open>The Latch reset\<close>

text \<open>
  Under Latch every press first resets the modifier mask, whatever key is pressed. So
  the mask after a press is the pressed symbol's own modifier mask (empty when the key
  resolves no symbol), the whole result of a press is the same as from the empty mask,
  and after a second press the mask holds the second key's contribution only. This is a
  statement about the mask alone: the symbol of a key is looked up at the stored level.
\<close>

theorem latch_press_resets_mask:
  assumes "modifier_behavior kb = EEK_MODIFIER_BEHAVIOR_LATCH"
  shows "modifiers (fst (eek_keyboard_real_key_pressed sh m5 kb key)) =
           (case eek_key_get_symbol_at_index key (group kb) (level kb) of
              None \<Rightarrow> 0
            | Some symb \<Rightarrow> eek_symbol_get_modifier_mask symb) \<and>
         eek_keyboard_real_key_pressed sh m5 kb key =
           eek_keyboard_real_key_pressed sh m5 (kb\<lparr>modifiers := 0\<rparr>) key \<and>
         modifiers (fst (eek_keyboard_real_key_pressed sh m5
             (fst (eek_keyboard_real_key_pressed sh m5 kb key)) key2)) =
           (case eek_key_get_symbol_at_index key2 (group kb)
                   (level (fst (eek_keyboard_real_key_pressed sh m5 kb key))) of
              None \<Rightarrow> 0
            | Some symb \<Rightarrow> eek_symbol_get_modifier_mask symb)"
proof -
  have one: "modifiers (fst (eek_keyboard_real_key_pressed sh m5 k key')) =
           (case eek_key_get_symbol_at_index key' (group k) (level k) of
              None \<Rightarrow> 0
            | Some symb \<Rightarrow> eek_symbol_get_modifier_mask symb)"
    if "modifier_behavior k = EEK_MODIFIER_BEHAVIOR_LATCH" for k key'
    using that
    by (cases "eek_key_get_symbol_at_index key' (group k) (level k)")
       (simp_all add: pressed_no_symbol pressed_latch set_level_from_modifiers_eq)
  have two: "eek_keyboard_real_key_pressed sh m5 kb key =
           eek_keyboard_real_key_pressed sh m5 (kb\<lparr>modifiers := 0\<rparr>) key"
    using assms by (simp add: eek_keyboard_real_key_pressed_def)
  have latch': "modifier_behavior (fst (eek_keyboard_real_key_pressed sh m5 kb key)) =
      EEK_MODIFIER_BEHAVIOR_LATCH"
    using assms by (simp add: pressed_keeps_frame)
  have three: "modifiers (fst (eek_keyboard_real_key_pressed sh m5
             (fst (eek_keyboard_real_key_pressed sh m5 kb key)) key2)) =
           (case eek_key_get_symbol_at_index key2 (group kb)
                   (level (fst (eek_keyboard_real_key_pressed sh m5 kb key))) of
              None \<Rightarrow> 0
            | Some symb \<Rightarrow> eek_symbol_get_modifier_mask symb)"
    using one [OF latch', of key2] by (simp add: pressed_keeps_frame)
  note first = one [OF assms, of key]
  show ?thesis
    by (rule conjI, rule first, rule conjI, rule two, rule three)
qed

text \<open>
  At a concrete input: with the bit 128 latched, a press of Shift (another modifier key)
  leaves the mask at 1, and a following press of the letter key leaves it empty.
\<close>

theorem latch_press_resets_mask_witness:
  "modifiers (fst (eek_keyboard_real_key_pressed 1 128
      (latch_keyboard\<lparr>modifiers := 128, level := 2\<rparr>) Shift_L_key)) = 1 \<and>
   modifiers (fst (eek_keyboard_real_key_pressed 1 128
      (fst (eek_keyboard_real_key_pressed 1 128
         (latch_keyboard\<lparr>modifiers := 128, level := 2\<rparr>) Shift_L_key)) a_key)) = 0"
proof -
  have lvl: "level (fst (eek_keyboard_real_key_pressed 1 128
      (latch_keyboard\<lparr>modifiers := 128, level := 2\<rparr>) Shift_L_key)) = 1"
    by (simp add: pressed_latch [OF sample_simps(1)] latch_keyboard_fields
        set_level_from_modifiers_eq level_of_mask_def eek_symbol_get_modifier_mask_def)
  have latch: "modifier_behavior (latch_keyboard\<lparr>modifiers := 128, level := 2\<rparr>) =
      EEK_MODIFIER_BEHAVIOR_LATCH"
    by (simp add: latch_keyboard_fields)
  note both = latch_press_resets_mask [OF latch, of 1 128 Shift_L_key a_key]
  show ?thesis
    using both [THEN conjunct1] both [THEN conjunct2, THEN conjunct2]
    by (simp add: lvl sample_simps latch_keyboard_fields eek_symbol_get_modifier_mask_def)
qed

subsection \<open>How far a latched modifier reaches\<close>

lemma latch_shift_pair_state:
  "fst (key_events 1 128 latch_keyboard
      [KEY_PRESSED Shift_L_key, KEY_RELEASED Shift_L_key]) =
   latch_keyboard\<lparr>modifiers := 1, level := 1\<rparr>"
  by (simp add: key_events_Cons latch_shift_state released_keeps [OF sample_simps(1)]
      latch_keyboard_fields set_level_from_modifiers_eq level_of_mask_def
      del: key_events.simps(2))

lemma latch_shift_miss_state:
  "fst (key_events 1 128 latch_keyboard
      [KEY_PRESSED Shift_L_key, KEY_RELEASED Shift_L_key,
       KEY_PRESSED space_key, KEY_RELEASED space_key]) =
   latch_keyboard\<lparr>modifiers := 0, level := 1\<rparr>"
proof -
  have p1: "fst (eek_keyboard_real_key_pressed 1 128 latch_keyboard Shift_L_key) =
      latch_keyboard\<lparr>modifiers := 1, level := 1\<rparr>"
    by (simp add: latch_shift_state)
  have r1: "fst (eek_keyboard_real_key_released 1 128
      (latch_keyboard\<lparr>modifiers := 1, level := 1\<rparr>) Shift_L_key) =
      latch_keyboard\<lparr>modifiers := 1, level := 1\<rparr>"
    by (simp add: released_keeps [OF sample_simps(1)] latch_keyboard_fields
        set_level_from_modifiers_eq level_of_mask_def)
  have p2: "fst (eek_keyboard_real_key_pressed 1 128
      (latch_keyboard\<lparr>modifiers := 1, level := 1\<rparr>) space_key) =
      latch_keyboard\<lparr>modifiers := 0, level := 1\<rparr>"
    by (simp add: pressed_no_symbol sample_simps latch_keyboard_fields)
  have r2: "fst (eek_keyboard_real_key_released 1 128
      (latch_keyboard\<lparr>modifiers := 0, level := 1\<rparr>) space_key) =
      latch_keyboard\<lparr>modifiers := 0, level := 1\<rparr>"
    by (simp add: released_no_symbol sample_simps latch_keyboard_fields)
  show ?thesis
    by (simp add: key_events_Cons p1 r1 p2 r2 del: key_events.simps(2))
qed

text \<open>
  C3. Under Latch the mask is reset on every press, so that a latched modifier applies
  to at most one subsequent keypress. The reset is there (the theorem above), but a key's
  symbol is looked up at the stored level, never at the mask, and the press handler
  returns before \<open>set_level_from_modifiers\<close> when the key resolves no symbol. On the
  Latch keyboard, after Shift is pressed and released, the space key is looked up at
  level 1 and has no symbol there. After its press and release the mask is empty, yet
  the letter key still resolves to its level-1 symbol A, and not to the symbol a that it
  has at the level of the empty mask: the latched Shift reaches a second keypress.
\<close>

theorem latch_modifier_second_keypress:
  "eek_key_get_symbol_at_index space_key
     (group (fst (key_events 1 128 latch_keyboard
        [KEY_PRESSED Shift_L_key, KEY_RELEASED Shift_L_key])))
     (level (fst (key_events 1 128 latch_keyboard
        [KEY_PRESSED Shift_L_key, KEY_RELEASED Shift_L_key]))) = None \<and>
   modifiers (fst (key_events 1 128 latch_keyboard
      [KEY_PRESSED Shift_L_key, KEY_RELEASED Shift_L_key,
       KEY_PRESSED space_key, KEY_RELEASED space_key])) = 0 \<and>
   eek_key_get_symbol_at_index a_key
     (group (fst (key_events 1 128 latch_keyboard
        [KEY_PRESSED Shift_L_key, KEY_RELEASED Shift_L_key,
         KEY_PRESSED space_key, KEY_RELEASED space_key])))
     (level (fst (key_events 1 128 latch_keyboard
        [KEY_PRESSED Shift_L_key, KEY_RELEASED Shift_L_key,
         KEY_PRESSED space_key, KEY_RELEASED space_key]))) =
     Some \<lparr>name = ''A'', modifier_mask = 0\<rparr> \<and>
   eek_key_get_symbol_at_index a_key 0 (level_of_mask 1 128 0) =
     Some \<lparr>name = ''a'', modifier_mask = 0\<rparr>"
  unfolding latch_shift_pair_state latch_shift_miss_state
  by (simp add: sample_simps latch_keyboard_fields level_of_mask_def)

theorem latch_modifier_second_keypress_witness:
  "map_option name (eek_key_get_symbol_at_index a_key
     (group (fst (key_events 1 128 latch_keyboard
        [KEY_PRESSED Shift_L_key, KEY_RELEASED Shift_L_key,
         KEY_PRESSED space_key, KEY_RELEASED space_key])))
     (level (fst (key_events 1 128 latch_keyboard
        [KEY_PRESSED Shift_L_key, KEY_RELEASED Shift_L_key,
         KEY_PRESSED space_key, KEY_RELEASED space_key])))) = Some ''A''"
proof -
  note at = latch_modifier_second_keypress
  show ?thesis
    by (simp only: at [THEN conjunct2, THEN conjunct2, THEN conjunct1]) simp
qed

section \<open>The modifier contribution of a press\<close>

text \<open>
  C4, as the code has it. Let the pressed key resolve to a symbol with modifier mask m.
  When m is not zero, the mask after the press is the old mask OR m under None, m alone
  under Latch (the old mask is reset first, then m is ORed in), and the old mask XOR m
  under Lock. When m is zero, the mask after the press is the old mask under None and
  Lock, and empty under Latch.
\<close>

theorem key_pressed_modifier_contribution:
  assumes "eek_key_get_symbol_at_index key (group kb) (level kb) = Some symb"
    and "m = eek_symbol_get_modifier_mask symb"
  shows "(modifier_behavior kb = EEK_MODIFIER_BEHAVIOR_NONE \<and> m \<noteq> 0 \<longrightarrow>
            modifiers (fst (eek_keyboard_real_key_pressed sh m5 kb key)) = modifiers kb OR m) \<and>
         (modifier_behavior kb = EEK_MODIFIER_BEHAVIOR_LATCH \<and> m \<noteq> 0 \<longrightarrow>
            modifiers (fst (eek_keyboard_real_key_pressed sh m5 kb key)) = m) \<and>
         (modifier_behavior kb = EEK_MODIFIER_BEHAVIOR_LOCK \<and> m \<noteq> 0 \<longrightarrow>
            modifiers (fst (eek_keyboard_real_key_pressed sh m5 kb key)) = modifiers kb XOR m) \<and>
         (modifier_behavior kb \<noteq> EEK_MODIFIER_BEHAVIOR_LATCH \<and> m = 0 \<longrightarrow>
            modifiers (fst (eek_keyboard_real_key_pressed sh m5 kb key)) = modifiers kb) \<and>
         (modifier_behavior kb = EEK_MODIFIER_BEHAVIOR_LATCH \<and> m = 0 \<longrightarrow>
            modifiers (fst (eek_keyboard_real_key_pressed sh m5 kb key)) = 0)"
  using assms
  by (cases "modifier_behavior kb")
     (simp_all add: pressed_none pressed_latch pressed_lock set_level_from_modifiers_eq)

theorem key_pressed_modifier_contribution_witness:
  "modifiers (fst (eek_keyboard_real_key_pressed 1 128
      (lock_keyboard\<lparr>modifiers := 129, level := 3\<rparr>) Shift_L_key)) = 128 \<and>
   modifiers (fst (eek_keyboard_real_key_pressed 1 128
      (eek_keyboard_init\<lparr>modifiers := 128, level := 2\<rparr>) Shift_L_key)) = 129"
  using key_pressed_modifier_contribution
      [where key = Shift_L_key and kb = "lock_keyboard\<lparr>modifiers := 129, level := 3\<rparr>"
         and symb = "\<lparr>name = ''Shift_L'', modifier_mask = 1\<rparr>" and m = 1
         and sh = 1 and ?m5.0 = 128]
    key_pressed_modifier_contribution
      [where key = Shift_L_key and kb = "eek_keyboard_init\<lparr>modifiers := 128, level := 2\<rparr>"
         and symb = "\<lparr>name = ''Shift_L'', modifier_mask = 1\<rparr>" and m = 1
         and sh = 1 and ?m5.0 = 128]
  by (simp add: sample_simps lock_keyboard_fields init_fields eek_symbol_get_modifier_mask_def)

text \<open>
  The claim as stated (new mask = old mask OR m under Latch) fails: with the bit 128
  latched by a press of the level-3 shift key, a press of Shift (m = 1) leaves the mask
  at 1, while the old mask OR m is 129.
\<close>

theorem key_pressed_latch_or_counterexample:
  "modifier_behavior (fst (eek_keyboard_real_key_pressed 1 128 latch_keyboard ISO_Level3_Shift_key))
     = EEK_MODIFIER_BEHAVIOR_LATCH \<and>
   modifiers (fst (eek_keyboard_real_key_pressed 1 128 latch_keyboard ISO_Level3_Shift_key)) = 128 \<and>
   map_option eek_symbol_get_modifier_mask
     (eek_key_get_symbol_at_index Shift_L_key
        (group (fst (eek_keyboard_real_key_pressed 1 128 latch_keyboard ISO_Level3_Shift_key)))
        (level (fst (eek_keyboard_real_key_pressed 1 128 latch_keyboard ISO_Level3_Shift_key))))
     = Some 1 \<and>
   modifiers (fst (eek_keyboard_real_key_pressed 1 128
      (fst (eek_keyboard_real_key_pressed 1 128 latch_keyboard ISO_Level3_Shift_key))
      Shift_L_key)) = 1 \<and>
   modifiers (fst (eek_keyboard_real_key_pressed 1 128
      (fst (eek_keyboard_real_key_pressed 1 128 latch_keyboard ISO_Level3_Shift_key))
      Shift_L_key)) \<noteq>
     modifiers (fst (eek_keyboard_real_key_pressed 1 128 latch_keyboard ISO_Level3_Shift_key)) OR 1"
  by (simp add: latch_level3_state sample_simps latch_keyboard_fields
      pressed_latch [OF sample_simps(1)] set_level_from_modifiers_eq
      eek_symbol_get_modifier_mask_def)

section \<open>The modifier mask on release\<close>

text \<open>
  C5. Let the released key resolve to a symbol with a modifier mask m that is not zero.
  Under None the release clears the bits of m from the mask; under Latch and under Lock
  the release leaves the mask as it was.
\<close>

theorem key_released_modifier_mask:
  assumes "eek_key_get_symbol_at_index key (group kb) (level kb) = Some symb"
    and "m = eek_symbol_get_modifier_mask symb"
    and "m \<noteq> 0"
  shows "(modifier_behavior kb = EEK_MODIFIER_BEHAVIOR_NONE \<longrightarrow>
            modifiers (fst (eek_keyboard_real_key_released sh m5 kb key)) =
              modifiers kb AND NOT m) \<and>
         (modifier_behavior kb = EEK_MODIFIER_BEHAVIOR_LATCH \<or>
          modifier_behavior kb = EEK_MODIFIER_BEHAVIOR_LOCK \<longrightarrow>
            modifiers (fst (eek_keyboard_real_key_released sh m5 kb key)) = modifiers kb)"
  using assms
  by (cases "modifier_behavior kb")
     (simp_all add: released_none released_keeps set_level_from_modifiers_eq)

theorem key_released_modifier_mask_witness:
  "modifiers (fst (eek_keyboard_real_key_released 1 128
      (eek_keyboard_init\<lparr>modifiers := 129, level := 3\<rparr>) Shift_L_key)) = 128 \<and>
   modifiers (fst (eek_keyboard_real_key_released 1 128
      (lock_keyboard\<lparr>modifiers := 129, level := 3\<rparr>) Shift_L_key)) = 129"
  using key_released_modifier_mask
      [where key = Shift_L_key and kb = "eek_keyboard_init\<lparr>modifiers := 129, level := 3\<rparr>"
         and symb = "\<lparr>name = ''Shift_L'', modifier_mask = 1\<rparr>" and m = 1
         and sh = 1 and ?m5.0 = 128]
    key_released_modifier_mask
      [where key = Shift_L_key and kb = "lock_keyboard\<lparr>modifiers := 129, level := 3\<rparr>"
         and symb = "\<lparr>name = ''Shift_L'', modifier_mask = 1\<rparr>" and m = 1
         and sh = 1 and ?m5.0 = 128]
  by (simp add: sample_simps lock_keyboard_fields init_fields eek_symbol_get_modifier_mask_def)

section \<open>Toggling a modifier under Lock\<close>

text \<open>
  C6. Under Lock, take a key whose symbol carries the mask M at the two indices it is
  looked up at, and a state where M is clear and the level is the level of the mask.
  The first press sets M in the mask; after press and release the mask has M set and the
  level is the level of that mask; the second press clears M again; after press, release,
  press, release the keyboard is the one the sequence started from, and so it is after
  any even number of press-release pairs.
\<close>

theorem lock_press_release_twice:
  assumes lock: "modifier_behavior kb = EEK_MODIFIER_BEHAVIOR_LOCK"
    and clear: "modifiers kb AND M = 0"
    and cons: "level kb = level_of_mask sh m5 (modifiers kb)"
    and s0: "eek_key_get_symbol_at_index key (group kb) (level kb) = Some symb0"
            "eek_symbol_get_modifier_mask symb0 = M"
    and s1: "eek_key_get_symbol_at_index key (group kb)
               (level_of_mask sh m5 (modifiers kb OR M)) = Some symb1"
            "eek_symbol_get_modifier_mask symb1 = M"
  shows "modifiers (fst (key_events sh m5 kb [KEY_PRESSED key])) = modifiers kb OR M \<and>
         fst (key_events sh m5 kb [KEY_PRESSED key, KEY_RELEASED key]) =
           kb\<lparr>modifiers := modifiers kb OR M,
              level := level_of_mask sh m5 (modifiers kb OR M)\<rparr> \<and>
         modifiers (fst (key_events sh m5 kb
            [KEY_PRESSED key, KEY_RELEASED key, KEY_PRESSED key])) = modifiers kb \<and>
         fst (key_events sh m5 kb
            [KEY_PRESSED key, KEY_RELEASED key, KEY_PRESSED key, KEY_RELEASED key]) = kb \<and>
         fst (key_events sh m5 kb
            (concat (replicate (2 * n) [KEY_PRESSED key, KEY_RELEASED key]))) = kb"
proof -
  let ?on = "kb\<lparr>modifiers := modifiers kb OR M,
                 level := level_of_mask sh m5 (modifiers kb OR M)\<rparr>"
  have p1: "fst (eek_keyboard_real_key_pressed sh m5 kb key) = ?on"
    using lock s0 clear by (simp add: pressed_lock set_level_from_modifiers_eq or_xor_clear)
  have r1: "fst (eek_keyboard_real_key_released sh m5 ?on key) = ?on"
    using lock s1 by (simp add: released_keeps set_level_from_modifiers_eq)
  have p2: "fst (eek_keyboard_real_key_pressed sh m5 ?on key) = kb"
    using lock s1 clear cons
    by (simp add: pressed_lock set_level_from_modifiers_eq or_xor_clear)
  have r2: "fst (eek_keyboard_real_key_released sh m5 kb key) = kb"
    using lock s0 cons by (simp add: released_keeps set_level_from_modifiers_eq)
  have one: "modifiers (fst (key_events sh m5 kb [KEY_PRESSED key])) = modifiers kb OR M"
    by (simp add: key_events_Cons p1 del: key_events.simps(2))
  have pair: "fst (key_events sh m5 kb [KEY_PRESSED key, KEY_RELEASED key]) = ?on"
    by (simp add: key_events_Cons p1 r1 del: key_events.simps(2))
  have three: "modifiers (fst (key_events sh m5 kb
            [KEY_PRESSED key, KEY_RELEASED key, KEY_PRESSED key])) = modifiers kb"
    by (simp add: key_events_Cons p1 r1 p2 del: key_events.simps(2))
  have four: "fst (key_events sh m5 kb
            [KEY_PRESSED key, KEY_RELEASED key, KEY_PRESSED key, KEY_RELEASED key]) = kb"
    by (simp add: key_events_Cons p1 r1 p2 r2 del: key_events.simps(2))
  have even: "fst (key_events sh m5 kb
            (concat (replicate (2 * n) [KEY_PRESSED key, KEY_RELEASED key]))) = kb"
  proof (induction n)
    case 0
    show ?case by simp
  next
    case (Suc n)
    have "concat (replicate (2 * Suc n) [KEY_PRESSED key, KEY_RELEASED key]) =
        [KEY_PRESSED key, KEY_RELEASED key, KEY_PRESSED key, KEY_RELEASED key] @
        concat (replicate (2 * n) [KEY_PRESSED key, KEY_RELEASED key])"
      by simp
    then show ?case
      using Suc.IH four by (simp only: key_events_append)
  qed
  show ?thesis
    by (rule conjI, rule one, rule conjI, rule pair, rule conjI, rule three,
        rule conjI, rule four, rule even)
qed

text \<open>
  With the Shift key on the initial keyboard under Lock: after one press-release pair the
  mask is 1 and the level is 1, and after two pairs, or six, the keyboard is the initial
  one again.
\<close>

theorem lock_press_release_twice_witness:
  "fst (key_events 1 128 lock_keyboard [KEY_PRESSED Shift_L_key, KEY_RELEASED Shift_L_key]) =
     lock_keyboard\<lparr>modifiers := 1, level := 1\<rparr> \<and>
   fst (key_events 1 128 lock_keyboard
     [KEY_PRESSED Shift_L_key, KEY_RELEASED Shift_L_key,
      KEY_PRESSED Shift_L_key, KEY_RELEASED Shift_L_key]) = lock_keyboard \<and>
   fst (key_events 1 128 lock_keyboard
     (concat (replicate (2 * 3) [KEY_PRESSED Shift_L_key, KEY_RELEASED Shift_L_key]))) =
     lock_keyboard"
proof -
  have md: "modifiers lock_keyboard OR 1 = 1"
    by (simp add: lock_keyboard_fields)
  have lv: "level_of_mask 1 128 1 = 1"
    by (simp add: level_of_mask_def)
  have h1: "modifier_behavior lock_keyboard = EEK_MODIFIER_BEHAVIOR_LOCK"
    and h2: "modifiers lock_keyboard AND 1 = 0"
    and h3: "level lock_keyboard = level_of_mask 1 128 (modifiers lock_keyboard)"
    by (simp_all add: lock_keyboard_fields level_of_mask_def)
  have h4: "eek_key_get_symbol_at_index Shift_L_key (group lock_keyboard) (level lock_keyboard) =
      Some \<lparr>name = ''Shift_L'', modifier_mask = 1\<rparr>"
    and h5: "eek_key_get_symbol_at_index Shift_L_key (group lock_keyboard)
        (level_of_mask 1 128 (modifiers lock_keyboard OR 1)) =
      Some \<lparr>name = ''Shift_L'', modifier_mask = 1\<rparr>"
    and h6: "eek_symbol_get_modifier_mask \<lparr>name = ''Shift_L'', modifier_mask = 1\<rparr> = 1"
    by (simp_all add: sample_simps eek_symbol_get_modifier_mask_def)
  note all = lock_press_release_twice [OF h1 h2 h3 h4 h6 h5 h6, of 3]
  have pair: "fst (key_events 1 128 lock_keyboard
      [KEY_PRESSED Shift_L_key, KEY_RELEASED Shift_L_key]) =
     lock_keyboard\<lparr>modifiers := 1, level := 1\<rparr>"
    using all [THEN conjunct2, THEN conjunct1] by (simp only: md lv)
  show ?thesis
    by (rule conjI, rule pair, rule conjI,
        rule all [THEN conjunct2, THEN conjunct2, THEN conjunct2, THEN conjunct1],
        rule all [THEN conjunct2, THEN conjunct2, THEN conjunct2, THEN conjunct2])
qed

section \<open>The symbol-index-changed notification\<close>

text \<open>
  C7. A press or release event is handled by a function: it has one resulting keyboard.
  The event emits exactly one symbol-index-changed notification, carrying the new group
  and level, when the (group, level) after the event differs from the one before, and
  no notification when they are equal.
\<close>

theorem key_event_notification:
  "snd (key_event sh m5 kb e) =
     (if (group (fst (key_event sh m5 kb e)), level (fst (key_event sh m5 kb e))) \<noteq>
         (group kb, level kb)
      then [SYMBOL_INDEX_CHANGED (group (fst (key_event sh m5 kb e)))
              (level (fst (key_event sh m5 kb e)))]
      else [])"
proof (cases e)
  case (KEY_PRESSED key)
  show ?thesis
    unfolding KEY_PRESSED key_event.simps
    by (cases "eek_key_get_symbol_at_index key (group kb) (level kb)";
        cases "modifier_behavior kb")
       (simp_all add: pressed_no_symbol pressed_none pressed_latch pressed_lock
          set_level_from_modifiers_eq)
next
  case (KEY_RELEASED key)
  show ?thesis
    unfolding KEY_RELEASED key_event.simps
    by (cases "eek_key_get_symbol_at_index key (group kb) (level kb)";
        cases "modifier_behavior kb")
       (simp_all add: released_no_symbol released_none released_keeps
          set_level_from_modifiers_eq)
qed

theorem key_event_notification_witness:
  "snd (key_event 1 128 eek_keyboard_init (KEY_PRESSED Shift_L_key)) = [SYMBOL_INDEX_CHANGED 0 1] \<and>
   snd (key_event 1 128 eek_keyboard_init (KEY_PRESSED a_key)) = []"
proof -
  have a: "eek_keyboard_real_key_pressed 1 128 eek_keyboard_init a_key = (eek_keyboard_init, [])"
    by (simp add: pressed_none [where symb = "\<lparr>name = ''a'', modifier_mask = 0\<rparr>"]
        sample_simps init_fields set_level_from_modifiers_eq level_of_mask_def
        eek_symbol_get_modifier_mask_def)
  show ?thesis
    using key_event_notification [of 1 128 eek_keyboard_init "KEY_PRESSED Shift_L_key"]
      key_event_notification [of 1 128 eek_keyboard_init "KEY_PRESSED a_key"]
    by (simp add: none_shift_state a init_fields)
qed

section \<open>Releasing Shift under the behavior None\<close>

text \<open>
  C8. Under the behavior None, in a state whose mask is the SHIFT bit alone and whose
  level is 1, the release of a key whose symbol carries the SHIFT bit empties the mask,
  sets the level to 0 and emits the symbol-index-changed notification for (group, 0),
  with no other event needed.
\<close>

theorem release_shift_alone_notifies:
  assumes "modifier_behavior kb = EEK_MODIFIER_BEHAVIOR_NONE"
    and "modifiers kb = sh" and "level kb = 1" and "sh \<noteq> 0"
    and "eek_key_get_symbol_at_index key (group kb) (level kb) = Some symb"
    and "eek_symbol_get_modifier_mask symb = sh"
  shows "eek_keyboard_real_key_released sh m5 kb key =
           (kb\<lparr>modifiers := 0, level := 0\<rparr>, [SYMBOL_INDEX_CHANGED (group kb) 0])"
  using assms
  by (simp add: released_none set_level_from_modifiers_eq level_of_mask_def)

theorem release_shift_alone_notifies_witness:
  "eek_keyboard_real_key_released 1 128
     (fst (eek_keyboard_real_key_pressed 1 128 eek_keyboard_init Shift_L_key)) Shift_L_key =
   (eek_keyboard_init, [SYMBOL_INDEX_CHANGED 0 0])"
proof -
  have "eek_keyboard_real_key_released 1 128
          (eek_keyboard_init\<lparr>modifiers := 1, level := 1\<rparr>) Shift_L_key =
        (eek_keyboard_init\<lparr>modifiers := 1, level := 1\<rparr>\<lparr>modifiers := 0, level := 0\<rparr>,
         [SYMBOL_INDEX_CHANGED (group (eek_keyboard_init\<lparr>modifiers := 1, level := 1\<rparr>)) 0])"
    by (rule release_shift_alone_notifies
          [where symb = "\<lparr>name = ''Shift_L'', modifier_mask = 1\<rparr>"])
       (simp_all add: sample_simps init_fields eek_symbol_get_modifier_mask_def)
  then show ?thesis
    unfolding none_shift_state by (simp add: eek_keyboard_init_def)
qed

section \<open>Finding a key by its keycode: first match\<close>

lemma find_append_first:
  "find P (xs @ ys) = (case find P xs of None \<Rightarrow> find P ys | Some x \<Rightarrow> Some x)"
  by (induction xs) simp_all

lemma container_find_sections:
  assumes "data_keycode data = code"
  shows "(case eek_container_find secs find_key_by_keycode_section_callback data of
            (Some section, data') \<Rightarrow> data_key data'
          | (None, data') \<Rightarrow> None) =
         find (\<lambda>k. keycode k = code) (concat (map section_children secs))"
  using assms
proof (induction secs arbitrary: data)
  case Nil
  then show ?case by simp
next
  case (Cons sec secs)
  show ?case
  proof (cases "find (\<lambda>k. keycode k = code) (section_children sec)")
    case None
    then show ?thesis
      using Cons.prems Cons.IH [of "data\<lparr>data_key := None\<rparr>"]
      by (simp add: find_key_by_keycode_section_callback_def
          eek_section_find_key_by_keycode_def find_append_first)
  next
    case (Some k)
    then show ?thesis
      using Cons.prems
      by (simp add: find_key_by_keycode_section_callback_def
          eek_section_find_key_by_keycode_def find_append_first)
  qed
qed

text \<open>
  C9. The lookup returns the first key with the keycode, in the order of the sections
  and, within a section, of its keys: the result is the first match in the
  concatenation of the sections' key lists, whatever the local \<open>data.key\<close> held on
  entry. When no key of any section has the keycode the result is the null result
  \<open>None\<close>. The keyboard comes back as it was.
\<close>

theorem find_key_by_keycode_first_match:
  "eek_keyboard_real_find_key_by_keycode uninit kb code =
     (kb, find (\<lambda>k. keycode k = code) (concat (map section_children (children kb)))) \<and>
   ((\<forall>sec \<in> set (children kb). \<forall>k \<in> set (section_children sec). keycode k \<noteq> code) \<longrightarrow>
      snd (eek_keyboard_real_find_key_by_keycode uninit kb code) = None)"
proof -
  have eq: "eek_keyboard_real_find_key_by_keycode uninit kb code =
     (kb, find (\<lambda>k. keycode k = code) (concat (map section_children (children kb))))"
    using container_find_sections
      [of "\<lparr>data_key = uninit, data_keycode = code\<rparr>" code "children kb"]
    by (simp add: eek_keyboard_real_find_key_by_keycode_def split: prod.splits option.splits)
  show ?thesis
    unfolding eq by (auto simp: find_None_iff)
qed

text \<open>
  On the sample keyboard the keycode 38 is carried by a key of the first section and by
  a different key of the second: the lookup returns the one of the first section. The keycode 65
  is found in the second section, and the keycode 99 in none.
\<close>

theorem find_key_by_keycode_first_match_witness:
  "eek_keyboard_real_find_key_by_keycode (Some space_key) sample_keyboard 38 =
     (sample_keyboard, Some a_key) \<and>
   eek_keyboard_real_find_key_by_keycode None sample_keyboard 65 =
     (sample_keyboard, Some space_key) \<and>
   eek_keyboard_real_find_key_by_keycode (Some space_key) sample_keyboard 99 =
     (sample_keyboard, None) \<and>
   a_key \<noteq> a_key_again"
proof -
  have "symbol_matrix a_key 1 0 \<noteq> symbol_matrix a_key_again 1 0"
    by (simp add: a_key_def a_key_again_def)
  then have differ: "a_key \<noteq> a_key_again"
    by auto
  have codes: "keycode Shift_L_key = 50" "keycode a_key = 38" "keycode space_key = 65"
    "keycode a_key_again = 38"
    by (simp_all add: Shift_L_key_def a_key_def space_key_def a_key_again_def)
  have secs: "concat (map section_children (children sample_keyboard)) =
      [Shift_L_key, a_key, space_key, a_key_again]"
    by (simp add: sample_keyboard_def)
  show ?thesis
    using find_key_by_keycode_first_match [of "Some space_key" sample_keyboard 38]
      find_key_by_keycode_first_match [of None sample_keyboard 65]
      find_key_by_keycode_first_match [of "Some space_key" sample_keyboard 99]
    by (simp add: secs codes differ)
qed

section \<open>Setting the group or the level alone\<close>

text \<open>
  C10. Setting the group alone stores the new group and keeps the level; setting the
  level alone stores the new level and keeps the group. Neither operation touches the
  modifier mask, the modifier behavior or the sections.
\<close>

theorem set_group_set_level_frame:
  "fst (eek_keyboard_set_group kb g) = kb\<lparr>group := g\<rparr> \<and>
   group (fst (eek_keyboard_set_group kb g)) = g \<and>
   level (fst (eek_keyboard_set_group kb g)) = level kb \<and>
   modifiers (fst (eek_keyboard_set_group kb g)) = modifiers kb \<and>
   modifier_behavior (fst (eek_keyboard_set_group kb g)) = modifier_behavior kb \<and>
   fst (eek_keyboard_set_level kb l) = kb\<lparr>level := l\<rparr> \<and>
   level (fst (eek_keyboard_set_level kb l)) = l \<and>
   group (fst (eek_keyboard_set_level kb l)) = group kb \<and>
   modifiers (fst (eek_keyboard_set_level kb l)) = modifiers kb \<and>
   modifier_behavior (fst (eek_keyboard_set_level kb l)) = modifier_behavior kb"
  by (auto simp: eek_keyboard_set_group_def eek_keyboard_set_level_def
      eek_keyboard_set_symbol_index_def eek_keyboard_real_set_symbol_index_def
      eek_keyboard_get_group_def eek_keyboard_get_level_def
      eek_keyboard_real_get_symbol_index_def Let_def)

theorem set_group_set_level_frame_witness:
  "fst (eek_keyboard_set_group (eek_keyboard_init\<lparr>modifiers := 1, level := 1\<rparr>) 2) =
     eek_keyboard_init\<lparr>modifiers := 1, level := 1, group := 2\<rparr> \<and>
   fst (eek_keyboard_set_level (eek_keyboard_init\<lparr>modifiers := 1, level := 1\<rparr>) 3) =
     eek_keyboard_init\<lparr>modifiers := 1, level := 3\<rparr>"
  using set_group_set_level_frame [of "eek_keyboard_init\<lparr>modifiers := 1, level := 1\<rparr>" 2 3]
  by (simp add: eek_keyboard_init_def)

end
